theory Spec2Isabelle
  imports Main "HOL-Library.AList"
begin

section \<open>JavaScript values\<close>

text \<open>
  The values the module builds and passes around (aggregation steps, queue records,
  free-form queries) are JSON-like JavaScript values. Numbers are the integers the
  module computes with (millisecond timestamps, counts), objects are association lists
  in insertion order.
\<close>

datatype jsv =
    JUndefined
  | JNull
  | JBool bool
  | JNum int
  | JStr string
  | JArr "jsv list"
  | JObj "(string \<times> jsv) list"

datatype error =
    TypeError
  | Rejected string

text \<open>JavaScript truthiness, as tested by \<open>if (x)\<close>, \<open>x && y\<close>, \<open>x || y\<close> and \<open>!x\<close>.\<close>

fun truthy :: "jsv \<Rightarrow> bool" where
  "truthy JUndefined = False"
| "truthy JNull = False"
| "truthy (JBool b) = b"
| "truthy (JNum n) = (n \<noteq> 0)"
| "truthy (JStr s) = (s \<noteq> [])"
| "truthy (JArr xs) = True"
| "truthy (JObj kvs) = True"

text \<open>Reading an own property \<open>o.k\<close> of a non-null value: \<open>undefined\<close> when absent.\<close>

fun js_prop :: "jsv \<Rightarrow> string \<Rightarrow> jsv" where
  "js_prop (JObj kvs) k = (case map_of kvs k of None \<Rightarrow> JUndefined | Some v \<Rightarrow> v)"
| "js_prop v k = JUndefined"

section \<open>Data model\<close>

datatype TriggerKind = API | Plain | Cohort | Event

text \<open>
  A trigger as the mappers read it. Dates are millisecond timestamps (\<open>getTime()\<close>);
  an absent (\<open>undefined\<close> or \<open>null\<close>) property is \<open>None\<close>.
\<close>

record trigger =
  t_kind :: TriggerKind
  t_start :: int
  t_tz :: bool
  t_sctz :: int
  t_time :: "int option"
  t_reschedule :: bool
  t_delay :: "int option"
  t_end :: "int option"

text \<open>
  A document of the \<open>app_users\<close> collection: \<open>uid\<close>, the stored timezone offset \<open>tz\<close>
  in minutes and the token sub-document \<open>user[TK]\<close>, keyed by platform and field.
\<close>

record user =
  u_uid :: string
  u_tz :: "int option"
  u_tk :: "(string \<times> string) list option"

record app =
  app_id :: string
  app_timezone :: string

text \<open>
  The behavioural (drill) filter \<open>message.filter.drill\<close>: its \<open>queryObject\<close>, whose key
  \<open>chr\<close> holds the cohort expression (\<open>$in\<close> and \<open>$nin\<close> arrays of cohort ids), and
  the other keys of both objects.
\<close>

record chr_expr =
  c_in :: "string list option"
  c_nin :: "string list option"

record query_object =
  qo_chr :: "chr_expr option"
  qo_rest :: "(string \<times> jsv) list"

record drill_query =
  dq_queryObject :: "query_object option"
  dq_rest :: "(string \<times> jsv) list"

text \<open>
  \<open>message.filter\<close>: region ids, cohort ids, the free-form user query (an object, kept
  as its list of keys and values) and the drill query.
\<close>

record audience_filter =
  f_geos :: "string list"
  f_cohorts :: "string list"
  f_user :: "(string \<times> jsv) list option"
  f_drill :: "drill_query option"

text \<open>
  The message as this module reads it. Its filter is edited in place by \<open>steps\<close> and is
  kept in the state below. \<open>msg_triggerPlain\<close> is the result of
  \<open>message.triggerPlain()\<close>.
\<close>

record message =
  msg_id :: string
  msg_app :: string
  msg_platforms :: "string list"
  msg_userFields :: jsv
  msg_triggerPlain :: "trigger option"

text \<open>The fields the \<open>Audience\<close> constructor assigns (the logger apart).\<close>

record audience =
  a_message :: message
  a_app :: "app option"

definition Audience_new :: "message \<Rightarrow> app option \<Rightarrow> audience" where
  "Audience_new msg ap = \<lparr> a_message = msg, a_app = ap \<rparr>"

text \<open>Calls of the stores and of the optional providers, in the order they are made.\<close>

datatype call =
    DbGeosFind
  | DbPushFind
  | DbUsersAggregate
  | GeoQuery
  | DrillPreprocessQuery
  | DrillFetchUsers
  | PushInsertMany nat
  | PushDeleteMany string string
  | MessageUpdate "(string \<times> int) list"

text \<open>
  The state the module acts on: the filter object of the message, the log of calls,
  the \<open>push\<close> collection (the queue) and the counters of the message document, by path.
\<close>

record world =
  w_filter :: audience_filter
  w_calls :: "call list"
  w_push :: "jsv list"
  w_counters :: "(string \<times> int) list"

text \<open>
  The optional providers. \<open>geo().conds(g)\<close> translates a region document,
  \<open>geo().query(appId, q)\<close> resolves candidate regions (\<open>None\<close> for a \<open>null\<close> or
  \<open>undefined\<close> answer) or rejects. \<open>drill().preprocessQuery(query)\<close> edits the query in
  place, \<open>drill().drill.fetchUsers(params, callback, db)\<close> calls back with an error or
  with the user ids (\<open>None\<close> for no list).
\<close>

record geo_api =
  conds :: "jsv \<Rightarrow> jsv"
  geo_query :: "string \<Rightarrow> jsv \<Rightarrow> error + jsv list option"

record fetch_params =
  fp_time :: jsv
  fp_app_id :: jsv
  fp_query :: drill_query

record drill_api =
  preprocessQuery :: "(string \<times> jsv) list \<Rightarrow> (string \<times> jsv) list"
  fetchUsers :: "fetch_params \<Rightarrow> error + string list option"

text \<open>
  What the module takes from the rest of the server: the providers \<open>geo()\<close> and
  \<open>drill()\<close> (\<open>None\<close> when the plugin is not installed), \<open>fields(platforms, true)\<close> and
  \<open>Object.values(PLATFORM[p].FIELDS)\<close> of the platforms module,
  \<open>momenttz.tz(timezone).utcOffset()\<close>, \<open>common.initTimeObj\<close>,
  \<open>DEFAULTS.queue_insert_batch\<close>, the answers of the store to the \<open>find\<close>
  queries, the users an \<open>aggregate\<close> cursor delivers together with the failure that
  ends it (\<open>None\<close> when it is exhausted normally), and the failures of the writes
  (\<open>None\<close> when the write succeeds).
\<close>

record env =
  e_geo :: "geo_api option"
  e_drill :: "drill_api option"
  e_fields :: "string list \<Rightarrow> bool \<Rightarrow> string list"
  e_platform_fields :: "string \<Rightarrow> string list"
  e_utcOffset :: "string \<Rightarrow> int"
  e_initTimeObj :: "string \<Rightarrow> int \<Rightarrow> jsv"
  e_queue_insert_batch :: nat
  e_geos_find :: "string list \<Rightarrow> error + jsv list"
  e_push_find :: "string \<Rightarrow> jsv \<Rightarrow> error + jsv list"
  e_users_aggregate :: "string \<Rightarrow> jsv list \<Rightarrow> user list \<times> error option"
  e_insertMany_error :: "jsv list \<Rightarrow> error option"
  e_deleteMany_error :: "string \<Rightarrow> string \<Rightarrow> error option"
  e_update_error :: "(string \<times> int) list \<Rightarrow> error option"

text \<open>
  The process clock and calendar read through \<open>Date\<close>: \<open>Date.now()\<close>, the
  \<open>getTimezoneOffset()\<close> of \<open>new Date()\<close> in minutes, and the effect of
  \<open>setHours(0); setMinutes(0); setSeconds(0); setMilliseconds(0)\<close> on a timestamp,
  that is midnight of its day in the calendar of the process.
\<close>

record clock =
  now :: int
  timezoneOffset :: int
  localMidnight :: "int \<Rightarrow> int"

section \<open>Compiling the filter: \<open>Audience.steps\<close>\<close>

definition log_call :: "call \<Rightarrow> world \<Rightarrow> world" where
  "log_call c w = w\<lparr>w_calls := w_calls w @ [c]\<rparr>"

text \<open>Writing through the reference \<open>query\<close> edits \<open>message.filter.user\<close> itself.\<close>

definition set_user :: "(string \<times> jsv) list \<Rightarrow> world \<Rightarrow> world" where
  "set_user q w = w\<lparr>w_filter := (w_filter w)\<lparr>f_user := Some q\<rparr>\<rparr>"

definition set_drill :: "drill_query \<Rightarrow> world \<Rightarrow> world" where
  "set_drill q w = w\<lparr>w_filter := (w_filter w)\<lparr>f_drill := Some q\<rparr>\<rparr>"

text \<open>Sequencing of awaited steps: an exception ends the function.\<close>

definition and_then ::
  "world \<times> (error + 'a) \<Rightarrow> ('a \<Rightarrow> world \<Rightarrow> world \<times> (error + 'b)) \<Rightarrow> world \<times> (error + 'b)" where
  "and_then r f = (case r of (w, Inl e) \<Rightarrow> (w, Inl e) | (w, Inr x) \<Rightarrow> f x w)"

definition match :: "jsv \<Rightarrow> jsv" where
  "match q = JObj [(''$match'', q)]"

definition js_or :: "jsv list \<Rightarrow> jsv" where
  "js_or qs = JObj [(''$or'', JArr qs)]"

definition uid_in :: "jsv list \<Rightarrow> jsv" where
  "uid_in ids = JObj [(''uid'', JObj [(''$in'', JArr ids)])]"

text \<open>The name of a cohort-membership marker, \<open>'chr.' + id + '.in'\<close>.\<close>

definition chr_key :: "string \<Rightarrow> string" where
  "chr_key cid = ''chr.'' @ cid @ ''.in''"

text \<open>The loops that assign one marker per cohort id to an object.\<close>

definition set_markers :: "jsv \<Rightarrow> string list \<Rightarrow> (string \<times> jsv) list \<Rightarrow> (string \<times> jsv) list" where
  "set_markers v ids chr = foldl (\<lambda>acc cid. AList.update (chr_key cid) v acc) chr ids"

text \<open>Line 132: the user holds a token of one of the targeted fields.\<close>

definition token_step :: "env \<Rightarrow> audience \<Rightarrow> jsv" where
  "token_step en aud =
     match (js_or (map (\<lambda>f. JObj [(f, JBool True)])
                       (e_fields en (msg_platforms (a_message aud)) True)))"

text \<open>Lines 135-138: the regions of the filter.\<close>

definition steps_geos :: "env \<Rightarrow> jsv list \<Rightarrow> world \<Rightarrow> world \<times> (error + jsv list)" where
  "steps_geos en steps w =
     (if f_geos (w_filter w) \<noteq> [] then
        (case e_geo en of
           None \<Rightarrow> (w, Inr steps)
         | Some g \<Rightarrow>
             (case e_geos_find en (f_geos (w_filter w)) of
                Inl e \<Rightarrow> (log_call DbGeosFind w, Inl e)
              | Inr geos \<Rightarrow>
                  (log_call DbGeosFind w, Inr (steps @ [match (js_or (map (conds g) geos))]))))
      else (w, Inr steps))"

text \<open>Lines 141-147: the cohorts of the filter.\<close>

definition steps_cohorts :: "jsv list \<Rightarrow> world \<Rightarrow> world \<times> (error + jsv list)" where
  "steps_cohorts steps w =
     (if f_cohorts (w_filter w) \<noteq> [] then
        (w, Inr (steps @ [match (JObj (set_markers (JStr ''true'') (f_cohorts (w_filter w)) []))]))
      else (w, Inr steps))"

text \<open>
  \<open>filterMessage(min)\<close>. The class has no property \<open>db\<close> (the constructor assigns
  \<open>log\<close>, \<open>message\<close> and \<open>app\<close>), so evaluating \<open>this.db.ObjectID\<close> throws a
  TypeError whenever \<open>min.$in\<close> or \<open>min.$nin\<close> is truthy. Past that point both
  are falsy: the query is \<open>{msgs: {$elemMatch: {'0': {$in: min}}}}\<close>, and the \<open>$or\<close>
  form of the \<open>$nin\<close> case is never built. \<open>this.app._id\<close> throws when the app is
  not set.
\<close>

definition filterMessage :: "env \<Rightarrow> audience \<Rightarrow> jsv \<Rightarrow> world \<Rightarrow> world \<times> (error + jsv list)" where
  "filterMessage en aud mn w =
     (if truthy (js_prop mn ''$in'') \<or> truthy (js_prop mn ''$nin'') then (w, Inl TypeError)
      else
        (let query = JObj [(''$in'', mn)];
             query = JObj [(''msgs'', JObj [(''$elemMatch'', JObj [(''0'', query)])])]
         in case a_app aud of
              None \<Rightarrow> (w, Inl TypeError)
            | Some a \<Rightarrow>
                (case e_push_find en (app_id a) query of
                   Inl e \<Rightarrow> (log_call DbPushFind w, Inl e)
                 | Inr docs \<Rightarrow> (log_call DbPushFind w, Inr docs))))"

text \<open>Lines 153-158: the prior-message sub-query of the user query.\<close>

definition steps_user_message ::
  "env \<Rightarrow> audience \<Rightarrow> jsv list \<times> (string \<times> jsv) list \<Rightarrow> world
     \<Rightarrow> world \<times> (error + jsv list \<times> (string \<times> jsv) list)" where
  "steps_user_message en aud sq w =
     (case sq of (steps, query) \<Rightarrow>
        if truthy (js_prop (JObj query) ''message'') then
          and_then (filterMessage en aud (js_prop (JObj query) ''message'') w)
            (\<lambda>filtered w1.
               (let query1 = AList.delete ''message'' query
                in (set_user query1 w1, Inr (steps @ [match (uid_in filtered)], query1))))
        else (w, Inr (steps, query)))"

text \<open>Lines 160-172: the geo sub-query of the user query.\<close>

definition steps_user_geo ::
  "env \<Rightarrow> audience \<Rightarrow> jsv list \<times> (string \<times> jsv) list \<Rightarrow> world
     \<Rightarrow> world \<times> (error + jsv list \<times> (string \<times> jsv) list)" where
  "steps_user_geo en aud sq w =
     (case sq of (steps, query) \<Rightarrow>
        if truthy (js_prop (JObj query) ''geo'') then
          and_then
            (case (e_drill en, e_geo en) of
               (Some d, Some g) \<Rightarrow>
                 (let query1 = preprocessQuery d query;
                      w1 = log_call DrillPreprocessQuery (set_user query1 w)
                  in case a_app aud of
                       None \<Rightarrow> (w1, Inl TypeError)
                     | Some a \<Rightarrow>
                         (case geo_query g (app_id a) (js_prop (JObj query1) ''geo'') of
                            Inl e \<Rightarrow> (log_call GeoQuery w1, Inl e)
                          | Inr None \<Rightarrow>
                              (log_call GeoQuery w1,
                               Inr (steps, AList.update ''invalidgeo'' (JBool True) query1))
                          | Inr (Some geos) \<Rightarrow>
                              if geos \<noteq> [] then
                                (log_call GeoQuery w1,
                                 Inr (steps @ [match (js_or (map (conds g) geos))], query1))
                              else
                                (log_call GeoQuery w1,
                                 Inr (steps, AList.update ''invalidgeo'' (JBool True) query1))))
             | _ \<Rightarrow> (w, Inr (steps, query)))
            (\<lambda>(steps2, query2) w2.
               (let query3 = AList.delete ''geo'' query2
                in (set_user query3 w2, Inr (steps2, query3))))
        else (w, Inr (steps, query)))"

text \<open>Lines 150-177: the user query.\<close>

definition steps_user :: "env \<Rightarrow> audience \<Rightarrow> jsv list \<Rightarrow> world \<Rightarrow> world \<times> (error + jsv list)" where
  "steps_user en aud steps w =
     (case f_user (w_filter w) of
        None \<Rightarrow> (w, Inr steps)
      | Some query \<Rightarrow>
          and_then (steps_user_message en aud (steps, query) w) (\<lambda>sq1 w1.
          and_then (steps_user_geo en aud sq1 w1) (\<lambda>(steps2, query2) w2.
            if query2 \<noteq> [] then (w2, Inr (steps2 @ [match (JObj query2)]))
            else (w2, Inr steps2))))"

text \<open>
  Lines 180-221: the drill query. \<open>Object.keys(query.queryObject).length === 1\<close> with
  \<open>chr\<close> present means no other key. In the other branch \<open>params.qstring\<close> is a
  shallow copy, so deleting \<open>queryObject.chr\<close> edits the filter of the message, and it
  throws a TypeError when there is no \<open>queryObject\<close>.
\<close>

definition steps_drill :: "env \<Rightarrow> audience \<Rightarrow> clock \<Rightarrow> jsv list \<Rightarrow> world \<Rightarrow> world \<times> (error + jsv list)" where
  "steps_drill en aud clk steps w =
     (case (f_drill (w_filter w), e_drill en) of
        (Some query, Some d) \<Rightarrow>
          (case (case dq_queryObject query of
                   None \<Rightarrow> None
                 | Some qo \<Rightarrow> if qo_rest qo = [] then qo_chr qo else None) of
             Some chr \<Rightarrow>
               (let cohorts = [];
                    cohorts = (case c_in chr of
                                 None \<Rightarrow> cohorts
                               | Some ids \<Rightarrow> set_markers (JStr ''true'') ids cohorts);
                    cohorts = (case c_nin chr of
                                 None \<Rightarrow> cohorts
                               | Some ids \<Rightarrow> set_markers (JObj [(''$exists'', JBool False)]) ids cohorts)
                in (w, Inr (steps @ [match (JObj cohorts)])))
           | None \<Rightarrow>
               (case a_app aud of
                  None \<Rightarrow> (w, Inl TypeError)
                | Some a \<Rightarrow>
                    (case dq_queryObject query of
                       None \<Rightarrow> (w, Inl TypeError)
                     | Some qo \<Rightarrow>
                         (let query1 = query\<lparr>dq_queryObject := Some (qo\<lparr>qo_chr := None\<rparr>)\<rparr>;
                              w1 = set_drill query1 w;
                              params = \<lparr> fp_time = e_initTimeObj en (app_timezone a) (now clk),
                                         fp_app_id = (case map_of (dq_rest query) ''app_id'' of
                                                        None \<Rightarrow> JStr (app_id a)
                                                      | Some v \<Rightarrow> v),
                                         fp_query = query1 \<rparr>
                          in case fetchUsers d params of
                               Inl e \<Rightarrow> (log_call DrillFetchUsers w1, Inl e)
                             | Inr uids \<Rightarrow>
                                 (log_call DrillFetchUsers w1,
                                  Inr (steps @ [match (uid_in (map JStr
                                         (case uids of None \<Rightarrow> [] | Some us \<Rightarrow> us)))]))))))
      | _ \<Rightarrow> (w, Inr steps))"

text \<open>The default value \<open>{uid: 1}\<close> of the parameter \<open>project\<close>.\<close>

definition project_default :: "jsv \<Rightarrow> jsv" where
  "project_default project = (if project = JUndefined then JObj [(''uid'', JNum 1)] else project)"

text \<open>\<open>Audience.steps(project)\<close>.\<close>

definition steps :: "env \<Rightarrow> audience \<Rightarrow> clock \<Rightarrow> jsv \<Rightarrow> world \<Rightarrow> world \<times> (error + jsv list)" where
  "steps en aud clk project w =
     and_then (steps_geos en [token_step en aud] w) (\<lambda>steps1 w1.
     and_then (steps_cohorts steps1 w1) (\<lambda>steps2 w2.
     and_then (steps_user en aud steps2 w2) (\<lambda>steps3 w3.
     and_then (steps_drill en aud clk steps3 w3) (\<lambda>steps4 w4.
       (w4, Inr (steps4 @ [JObj [(''$project'', project_default project)]]))))))"

text \<open>
  \<open>Audience.aggregate(project)\<close> starts with \<open>await this.query(project)\<close>. The class
  defines the methods \<open>getApp\<close>, \<open>push\<close>, \<open>pop\<close>, \<open>schedule\<close>, \<open>steps\<close>,
  \<open>aggregate\<close> and \<open>filterMessage\<close> and the constructor assigns \<open>log\<close>,
  \<open>message\<close> and \<open>app\<close>: \<open>this.query\<close> is \<open>undefined\<close>, and calling it throws a
  TypeError.
\<close>

definition Audience_query ::
  "(env \<Rightarrow> audience \<Rightarrow> clock \<Rightarrow> jsv \<Rightarrow> world \<Rightarrow> world \<times> (error + jsv list)) option" where
  "Audience_query = None"

definition aggregate :: "env \<Rightarrow> audience \<Rightarrow> clock \<Rightarrow> jsv \<Rightarrow> world \<Rightarrow> world \<times> (error + user list)" where
  "aggregate en aud clk project w =
     (case Audience_query of
        None \<Rightarrow> (w, Inl TypeError)
      | Some query \<Rightarrow>
          and_then (query en aud clk (project_default project) w) (\<lambda>steps w1.
            case a_app aud of
              None \<Rightarrow> (w1, Inl TypeError)
            | Some a \<Rightarrow>
                (case e_users_aggregate en (app_id a) steps of
                   (users, Some e) \<Rightarrow> (log_call DbUsersAggregate w1, Inl e)
                 | (users, None) \<Rightarrow> (log_call DbUsersAggregate w1, Inr users))))"

text \<open>
  What the blocks before the drill query leave alone: the drill query of the filter,
  and the behavioural provider's \<open>fetchUsers\<close>, which they never call.
\<close>

abbreviation keeps :: "world \<Rightarrow> world \<Rightarrow> bool" where
  "keeps w w' \<equiv> f_drill (w_filter w') = f_drill (w_filter w)
      \<and> (\<exists>cs. w_calls w' = w_calls w @ cs \<and> DrillFetchUsers \<notin> set cs)"

section \<open>Mappers\<close>

text \<open>
  The fields the \<open>Mapper\<close> constructor assigns. \<open>m_offset\<close> is
  \<open>momenttz.tz(app.timezone).utcOffset()\<close>, a number of minutes.
\<close>

record mapper =
  m_offset :: int
  m_message :: message
  m_trigger :: trigger
  m_p :: string
  m_f :: string
  m_pf :: string

definition Mapper_new :: "int \<Rightarrow> message \<Rightarrow> trigger \<Rightarrow> string \<Rightarrow> string \<Rightarrow> mapper" where
  "Mapper_new offset msg trig p f =
     \<lparr> m_offset = offset, m_message = msg, m_trigger = trig,
       m_p = p, m_f = f, m_pf = p @ f \<rparr>"

text \<open>
  \<open>common.db.oidWithDate(date)\<close> makes an object id whose leading bytes are the date;
  the id is represented by that seed.
\<close>

definition oidWithDate :: "int \<Rightarrow> jsv" where
  "oidWithDate date = JNum date"

text \<open>The object \<open>ret\<close> that \<open>Mapper.map\<close> builds (lines 319-330).\<close>

definition Mapper_ret :: "mapper \<Rightarrow> user \<Rightarrow> (string \<times> string) list \<Rightarrow> int \<Rightarrow> jsv \<Rightarrow> jsv \<Rightarrow> jsv" where
  "Mapper_ret m usr tk date pr c =
     (let ret = [(''_id'', oidWithDate date),
                 (''m'', JStr (msg_id (m_message m))),
                 (''p'', JStr (m_p m)),
                 (''f'', JStr (m_f m)),
                 (''u'', JStr (u_uid usr)),
                 (''t'', (case map_of tk (m_pf m) of None \<Rightarrow> JUndefined | Some t \<Rightarrow> JStr t)),
                 (''pr'', pr)]
      in JObj (if truthy c then AList.update ''c'' c ret else ret))"

text \<open>
  \<open>Mapper.map(user, date, pr, c)\<close>. Reading \<open>user[TK][this.pf]\<close> throws a TypeError
  when the user has no token sub-document. The function ends with \<open>return c\<close>: its
  result is the fourth argument, not the object it has built.
\<close>

definition Mapper_map :: "mapper \<Rightarrow> user \<Rightarrow> int \<Rightarrow> jsv \<Rightarrow> jsv \<Rightarrow> error + jsv" where
  "Mapper_map m usr date pr c =
     (case u_tk usr of
        None \<Rightarrow> Inl TypeError
      | Some tk \<Rightarrow> (let ret = Mapper_ret m usr tk date pr c in Inr c))"

text \<open>
  The user's timezone offset in milliseconds:
  \<open>(user.tz === undefined || user.tz === null ? this.offset || 0 : user.tz || 0) * 60000\<close>.
\<close>

definition utz :: "mapper \<Rightarrow> user \<Rightarrow> int" where
  "utz m usr = (case u_tz usr of None \<Rightarrow> m_offset m | Some z \<Rightarrow> z) * 60000"

text \<open>
  \<open>PlainApiMapper.map(user, date, c)\<close>. The call \<open>super.map(user, d, c)\<close> passes three
  arguments, so the content overrides arrive as \<open>pr\<close> and the parameter \<open>c\<close> of
  \<open>Mapper.map\<close> is \<open>undefined\<close>.
\<close>

definition PlainApiMapper_map :: "mapper \<Rightarrow> user \<Rightarrow> int \<Rightarrow> jsv \<Rightarrow> error + jsv" where
  "PlainApiMapper_map m usr date c =
     (let d = (if t_tz (m_trigger m)
               then date - t_sctz (m_trigger m) * 60000 - utz m usr
               else date)
      in Mapper_map m usr d c JUndefined)"

text \<open>
  \<open>CohortsEventsMapper.map(user, date, c)\<close>, in three parts. \<open>inTz\<close> is the candidate
  instant of line 383.
\<close>

definition inTz :: "clock \<Rightarrow> mapper \<Rightarrow> user \<Rightarrow> int \<Rightarrow> int \<Rightarrow> int" where
  "inTz clk m usr d time =
     localMidnight clk d + time + timezoneOffset clk * 60000 - utz m usr"

text \<open>
  Lines 370-400: the value of \<open>d\<close> that reaches the expiry test, or \<open>None\<close> when the
  function has already returned \<open>null\<close> at line 389.
\<close>

definition CohortsEventsMapper_date :: "clock \<Rightarrow> mapper \<Rightarrow> user \<Rightarrow> int \<Rightarrow> int option" where
  "CohortsEventsMapper_date clk m usr date =
     (let trig = m_trigger m;
          d = (case t_time trig of
                 None \<Rightarrow> Some date
               | Some time \<Rightarrow>
                   (let i = inTz clk m usr date time
                    in if i < now clk
                       then (if t_reschedule trig then Some (i + 24 * 60 * 60000) else None)
                       else Some i))
      in case d of
           None \<Rightarrow> None
         | Some d \<Rightarrow>
             (case t_delay trig of
                None \<Rightarrow> Some d
              | Some delay \<Rightarrow> if delay \<noteq> 0 then Some (d + delay) else Some d))"

text \<open>Lines 402-407: the expiry test and the call of \<open>super.map(user, d, c)\<close>.\<close>

definition CohortsEventsMapper_map :: "clock \<Rightarrow> mapper \<Rightarrow> user \<Rightarrow> int \<Rightarrow> jsv \<Rightarrow> error + jsv" where
  "CohortsEventsMapper_map clk m usr date c =
     (case CohortsEventsMapper_date clk m usr date of
        None \<Rightarrow> Inr JNull
      | Some d \<Rightarrow>
          (case t_end (m_trigger m) of
             None \<Rightarrow> Mapper_map m usr d c JUndefined
           | Some e \<Rightarrow> if e < d then Inr JNull else Mapper_map m usr d c JUndefined))"

section \<open>Pushers and poppers\<close>

text \<open>The two mapper classes; \<open>mapper.map(user, date, c)\<close> dispatches on the class.\<close>

datatype mapper_obj =
    PlainApiMapper mapper
  | CohortsEventsMapper mapper

fun mapper_map :: "clock \<Rightarrow> mapper_obj \<Rightarrow> user \<Rightarrow> int \<Rightarrow> jsv \<Rightarrow> error + jsv" where
  "mapper_map clk (PlainApiMapper m) usr date c = PlainApiMapper_map m usr date c"
| "mapper_map clk (CohortsEventsMapper m) usr date c = CohortsEventsMapper_map clk m usr date c"

text \<open>
  The properties of a \<open>PusherPopper\<close> that the methods below read. The constructor
  assigns \<open>audience\<close>, \<open>trigger\<close> and \<open>mappers\<close>; \<open>contents\<close> and \<open>start\<close> are
  assigned by their setters. \<open>Popper.clear\<close> also reads \<open>this.message\<close>, which
  neither the constructor nor a setter assigns: \<open>pp_message\<close> is that property,
  \<open>None\<close> when it is \<open>undefined\<close>.
\<close>

record pusherpopper =
  pp_audience :: audience
  pp_trigger :: trigger
  pp_mappers :: "mapper_obj list"
  pp_contents :: jsv
  pp_start :: "int option"
  pp_message :: "message option"

text \<open>
  The constructor builds one mapper per platform and field; the \<open>Mapper\<close> constructor
  reads \<open>app.timezone\<close>, a TypeError when the audience has no app.
\<close>

definition PusherPopper_new :: "env \<Rightarrow> audience \<Rightarrow> trigger \<Rightarrow> error + pusherpopper" where
  "PusherPopper_new en aud trig =
     (let pfs = concat (map (\<lambda>p. map (\<lambda>f. (p, f)) (e_platform_fields en p))
                            (msg_platforms (a_message aud)))
      in if pfs = [] then
           Inr \<lparr> pp_audience = aud, pp_trigger = trig, pp_mappers = [],
                 pp_contents = JUndefined, pp_start = None, pp_message = None \<rparr>
         else
           (case a_app aud of
              None \<Rightarrow> Inl TypeError
            | Some a \<Rightarrow>
                Inr \<lparr> pp_audience = aud, pp_trigger = trig,
                      pp_mappers =
                        map (\<lambda>(p, f).
                               if t_kind trig = API \<or> t_kind trig = Plain
                               then PlainApiMapper
                                      (Mapper_new (e_utcOffset en (app_timezone a)) (a_message aud) trig p f)
                               else CohortsEventsMapper
                                      (Mapper_new (e_utcOffset en (app_timezone a)) (a_message aud) trig p f))
                            pfs,
                      pp_contents = JUndefined, pp_start = None, pp_message = None \<rparr>))"

definition setContents :: "jsv \<Rightarrow> pusherpopper \<Rightarrow> pusherpopper" where
  "setContents contents pp = pp\<lparr>pp_contents := contents\<rparr>"

definition setStart :: "int option \<Rightarrow> pusherpopper \<Rightarrow> pusherpopper" where
  "setStart start pp = pp\<lparr>pp_start := start\<rparr>"

text \<open>\<open>Audience.pop(trigger)\<close> and \<open>Audience.schedule(trigger, date)\<close>.\<close>

definition Audience_pop :: "env \<Rightarrow> audience \<Rightarrow> trigger \<Rightarrow> error + pusherpopper" where
  "Audience_pop en aud trig = PusherPopper_new en aud trig"

definition Audience_schedule :: "env \<Rightarrow> audience \<Rightarrow> trigger \<Rightarrow> int option \<Rightarrow> error + pusherpopper" where
  "Audience_schedule en aud trig date =
     (case PusherPopper_new en aud trig of
        Inl e \<Rightarrow> Inl e
      | Inr pp \<Rightarrow> Inr (setStart date pp))"

subsection \<open>The queue writer\<close>

text \<open>
  Modelled from the spec: the queue writer \<open>Push.batchInsert(batchSize)\<close> of the
  message data module, which is not part of this module. It buffers up to a configured
  batch size and tracks a running total of the records ever accepted.
\<close>

record batch =
  b_size :: nat
  b_buffer :: "jsv list"
  b_total :: nat

text \<open>Modelled from the spec: \<open>Push.batchInsert(batchSize)\<close>, an empty writer.\<close>

definition batchInsert :: "nat \<Rightarrow> batch" where
  "batchInsert n = \<lparr> b_size = n, b_buffer = [], b_total = 0 \<rparr>"

text \<open>
  Modelled from the spec: \<open>batch.pushSync(record)\<close> accepts one record and reports
  whether the caller must flush, that is whether the buffer has reached the batch size.
\<close>

definition pushSync :: "batch \<Rightarrow> jsv \<Rightarrow> batch \<times> bool" where
  "pushSync b r =
     (b\<lparr>b_buffer := b_buffer b @ [r], b_total := Suc (b_total b)\<rparr>,
      b_size b \<le> Suc (length (b_buffer b)))"

text \<open>
  Modelled from the spec: \<open>batch.flush()\<close> writes the buffered batch to the queue store
  and clears the buffer; a failure of the write is surfaced to the caller.
\<close>

definition flush :: "env \<Rightarrow> batch \<Rightarrow> world \<Rightarrow> world \<times> (error + batch)" where
  "flush en b w =
     (case e_insertMany_error en (b_buffer b) of
        Some e \<Rightarrow> (log_call (PushInsertMany (length (b_buffer b))) w, Inl e)
      | None \<Rightarrow>
          (log_call (PushInsertMany (length (b_buffer b))) (w\<lparr>w_push := w_push w @ b_buffer b\<rparr>),
           Inr (b\<lparr>b_buffer := []\<rparr>)))"

subsection \<open>\<open>SchedulePusher.run\<close>\<close>

text \<open>
  Lines 519-526, over the successive results of \<open>mapper.map\<close>: a falsy result is
  skipped, an accepted one is pushed, and the batch is flushed when the writer says so.
  An exception of \<open>map\<close> or of the flush ends the loop.
\<close>

fun feed :: "env \<Rightarrow> (error + jsv) list \<Rightarrow> batch \<Rightarrow> world \<Rightarrow> world \<times> (error + batch)" where
  "feed en [] b w = (w, Inr b)"
| "feed en (Inl e # rest) b w = (w, Inl e)"
| "feed en (Inr push # rest) b w =
     (if \<not> truthy push then feed en rest b w
      else
        (case pushSync b push of
           (b1, full) \<Rightarrow>
             if full then
               (case flush en b1 w of
                  (w1, Inl e) \<Rightarrow> (w1, Inl e)
                | (w1, Inr b2) \<Rightarrow> feed en rest b2 w1)
             else feed en rest b1 w))"

text \<open>Lines 517-531: the loop and the final flush.\<close>

definition run_batches :: "env \<Rightarrow> (error + jsv) list \<Rightarrow> batch \<Rightarrow> world \<Rightarrow> world \<times> (error + batch)" where
  "run_batches en pushes b w = and_then (feed en pushes b w) (\<lambda>b1 w1. flush en b1 w1)"

text \<open>
  \<open>SchedulePusher.run()\<close>, in the order of lines 511-515: the steps are compiled,
  the cursor on the users is opened (reading \<open>this.audience.app._id\<close>), the writer is
  made, and only then the start date is read. The cursor delivers users and may end
  with a failure, which ends the loop like an exception of \<open>map\<close>: the final flush is
  not reached. The results of \<open>map\<close> are taken user by user, mapper by mapper.
\<close>

definition SchedulePusher_run :: "env \<Rightarrow> clock \<Rightarrow> pusherpopper \<Rightarrow> world \<Rightarrow> world \<times> (error + unit)" where
  "SchedulePusher_run en clk sp w =
     (let aud = pp_audience sp; msg = a_message aud
      in and_then (steps en aud clk (msg_userFields msg) w) (\<lambda>steps1 w1.
           case a_app aud of
             None \<Rightarrow> (w1, Inl TypeError)
           | Some a \<Rightarrow>
               (let w2 = log_call DbUsersAggregate w1;
                    batch = batchInsert (e_queue_insert_batch en)
                in case (case pp_start sp of
                           Some s \<Rightarrow> Some s
                         | None \<Rightarrow> map_option t_start (msg_triggerPlain msg)) of
                     None \<Rightarrow> (w2, Inl TypeError)
                   | Some start \<Rightarrow>
                       (case e_users_aggregate en (app_id a) steps1 of
                          (users, failure) \<Rightarrow>
                            and_then
                              (run_batches en
                                 (map (\<lambda>(usr, m). mapper_map clk m usr start (pp_contents sp))
                                      (List.product users (pp_mappers sp))
                                  @ (case failure of None \<Rightarrow> [] | Some e \<Rightarrow> [Inl e]))
                                 batch w2)
                              (\<lambda>b w3. (w3, Inr ()))))))"

subsection \<open>\<open>Popper.clear\<close>\<close>

text \<open>
  \<open>deleteMany({m: id, p})\<close> on the \<open>push\<close> collection: it removes the records of the
  message and platform and answers their number, or fails.
\<close>

definition push_matches :: "string \<Rightarrow> string \<Rightarrow> jsv \<Rightarrow> bool" where
  "push_matches mid p r = (js_prop r ''m'' = JStr mid \<and> js_prop r ''p'' = JStr p)"

definition deleteMany :: "env \<Rightarrow> string \<Rightarrow> string \<Rightarrow> world \<Rightarrow> world \<times> (error + int)" where
  "deleteMany en mid p w =
     (case e_deleteMany_error en mid p of
        Some e \<Rightarrow> (log_call (PushDeleteMany mid p) w, Inl e)
      | None \<Rightarrow>
          (log_call (PushDeleteMany mid p)
             (w\<lparr>w_push := filter (\<lambda>r. \<not> push_matches mid p r) (w_push w)\<rparr>),
           Inr (int (length (filter (push_matches mid p) (w_push w))))))"

text \<open>
  \<open>Promise.all\<close> over the platforms: every deletion is started, and the result is the
  array of the deleted counts or the first failure.
\<close>

fun delete_all :: "env \<Rightarrow> string \<Rightarrow> string list \<Rightarrow> world \<Rightarrow> world \<times> (error + int list)" where
  "delete_all en mid [] w = (w, Inr [])"
| "delete_all en mid (p # ps) w =
     (case deleteMany en mid p w of
        (w1, r) \<Rightarrow>
          (case delete_all en mid ps w1 of
             (w2, rs) \<Rightarrow>
               (w2, case r of
                      Inl e \<Rightarrow> Inl e
                    | Inr n \<Rightarrow> (case rs of Inl e \<Rightarrow> Inl e | Inr ns \<Rightarrow> Inr (n # ns)))))"

text \<open>The decimal name of an array index, as \<open>for (let p in deleted)\<close> enumerates it.\<close>

fun string_of_nat :: "nat \<Rightarrow> string" where
  "string_of_nat n =
     (if n < 10 then [''0123456789'' ! n]
      else string_of_nat (n div 10) @ [''0123456789'' ! (n mod 10)])"

definition inc_get :: "(string \<times> int) list \<Rightarrow> string \<Rightarrow> int" where
  "inc_get inc k = (case map_of inc k of None \<Rightarrow> 0 | Some v \<Rightarrow> v)"

text \<open>
  Lines 569-576: the \<open>$inc\<close> document, \<open>None\<close> while \<open>update\<close> is \<open>undefined\<close>. The
  loop variable \<open>p\<close> of \<open>for (let p in deleted)\<close> runs over the indices of the array.
\<close>

definition clear_update :: "int list \<Rightarrow> (string \<times> int) list option" where
  "clear_update deleted =
     foldl (\<lambda>update p.
              (let inc = (case update of None \<Rightarrow> [] | Some u \<Rightarrow> u);
                   inc = AList.update ''result.processed''
                           (inc_get inc ''result.processed'' + deleted ! p) inc;
                   inc = AList.update (''result.errors.'' @ string_of_nat p @ ''.cancelled'')
                           (inc_get inc (''result.errors.'' @ string_of_nat p @ ''.cancelled'')
                              + deleted ! p) inc
               in Some inc))
           None [0 ..< length deleted]"

text \<open>
  Modelled from the spec: \<open>message.update(update, callback)\<close> of the message data
  module, which is not part of this module: an atomic update of the message document
  with increment operators, or its failure. The callback mirrors the counters in the
  instance in memory and is left out.
\<close>

definition message_update :: "env \<Rightarrow> (string \<times> int) list \<Rightarrow> world \<Rightarrow> world \<times> (error + unit)" where
  "message_update en inc w =
     (case e_update_error en inc of
        Some e \<Rightarrow> (log_call (MessageUpdate inc) w, Inl e)
      | None \<Rightarrow>
          (log_call (MessageUpdate inc)
             (w\<lparr>w_counters :=
                  foldl (\<lambda>cs (k, d). AList.update k (inc_get cs k + d) cs) (w_counters w) inc\<rparr>),
           Inr ()))"

text \<open>\<open>Popper.clear()\<close>. Reading \<open>this.message.platforms\<close> comes first.\<close>

definition Popper_clear :: "env \<Rightarrow> pusherpopper \<Rightarrow> world \<Rightarrow> world \<times> (error + int)" where
  "Popper_clear en pp w =
     (case pp_message pp of
        None \<Rightarrow> (w, Inl TypeError)
      | Some msg \<Rightarrow>
          and_then (delete_all en (msg_id msg) (msg_platforms msg) w) (\<lambda>deleted w1.
          and_then (case clear_update deleted of
                      None \<Rightarrow> (w1, Inr ())
                    | Some inc \<Rightarrow> message_update en inc w1) (\<lambda>_ w2.
            (w2, Inr (foldl (\<lambda>a b. a + b) 0 deleted)))))"

section \<open>A concrete message\<close>

text \<open>
  The inputs used to run the definitions: a message targeting the platforms \<open>a\<close> and
  \<open>i\<close>, an app whose timezone offset is -300 minutes, a server process running in
  UTC, and the reference date 2024-01-10T23:00:00Z, which is also the current time.
\<close>

definition scn_filter :: audience_filter where
  "scn_filter = \<lparr> f_geos = [], f_cohorts = [], f_user = None, f_drill = None \<rparr>"

definition scn_plain :: trigger where
  "scn_plain = \<lparr> t_kind = Plain, t_start = 1704927600000, t_tz = False, t_sctz = 0,
                  t_time = None, t_reschedule = False, t_delay = None, t_end = None \<rparr>"

definition scn_cohort :: trigger where
  "scn_cohort = \<lparr> t_kind = Cohort, t_start = 0, t_tz = False, t_sctz = 0,
                   t_time = Some 32400000, t_reschedule = True, t_delay = None, t_end = None \<rparr>"

definition scn_message :: message where
  "scn_message = \<lparr> msg_id = ''m1'', msg_app = ''app1'', msg_platforms = [''a'', ''i''],
                    msg_userFields = JUndefined, msg_triggerPlain = Some scn_plain \<rparr>"

definition scn_app :: app where
  "scn_app = \<lparr> app_id = ''app1'', app_timezone = ''America/Bogota'' \<rparr>"

definition scn_audience :: audience where
  "scn_audience = Audience_new scn_message (Some scn_app)"

definition scn_user :: user where
  "scn_user = \<lparr> u_uid = ''u1'', u_tz = None, u_tk = Some [(''atoken'', ''abc'')] \<rparr>"

definition scn_clock :: clock where
  "scn_clock = \<lparr> now = 1704927600000, timezoneOffset = 0,
                  localMidnight = (\<lambda>d. d - d mod 86400000) \<rparr>"

definition scn_geo :: geo_api where
  "scn_geo = \<lparr> conds = (\<lambda>g. g), geo_query = (\<lambda>a q. Inr (Some [])) \<rparr>"

definition scn_drill :: drill_api where
  "scn_drill = \<lparr> preprocessQuery = (\<lambda>q. q), fetchUsers = (\<lambda>p. Inr (Some [''u1''])) \<rparr>"

definition scn_env :: env where
  "scn_env = \<lparr> e_geo = Some scn_geo, e_drill = Some scn_drill,
                e_fields = (\<lambda>ps w. map (\<lambda>p. ''tk'' @ p @ ''token'') ps),
                e_platform_fields = (\<lambda>p. [''token'']),
                e_utcOffset = (\<lambda>z. - 300),
                e_initTimeObj = (\<lambda>z t. JNum t),
                e_queue_insert_batch = 2,
                e_geos_find = (\<lambda>ids. Inr []),
                e_push_find = (\<lambda>a q. Inr []),
                e_users_aggregate = (\<lambda>a steps. ([scn_user], None)),
                e_insertMany_error = (\<lambda>rs. None),
                e_deleteMany_error = (\<lambda>m p. None),
                e_update_error = (\<lambda>u. None) \<rparr>"

definition scn_push :: "string \<Rightarrow> string \<Rightarrow> jsv" where
  "scn_push p u = JObj [(''m'', JStr ''m1''), (''p'', JStr p), (''u'', JStr u)]"

definition scn_world :: world where
  "scn_world = \<lparr> w_filter = scn_filter, w_calls = [],
                  w_push = [scn_push ''a'' ''u1'', scn_push ''a'' ''u2'', scn_push ''i'' ''u1''],
                  w_counters = [] \<rparr>"

text \<open>The same state with a drill query that is a cohort expression, and with a user
  query that embeds a geo sub-query.\<close>

definition scn_drill_query :: drill_query where
  "scn_drill_query =
     \<lparr> dq_queryObject =
         Some \<lparr> qo_chr = Some \<lparr> c_in = Some [''c1'', ''c2''], c_nin = None \<rparr>, qo_rest = [] \<rparr>,
       dq_rest = [] \<rparr>"

definition scn_world_drill :: world where
  "scn_world_drill = scn_world\<lparr>w_filter := scn_filter\<lparr>f_drill := Some scn_drill_query\<rparr>\<rparr>"







definition scn_mapper :: "trigger \<Rightarrow> mapper" where
  "scn_mapper trig = Mapper_new (- 300) scn_message trig ''a'' ''token''"

section \<open>Properties\<close>

subsection \<open>Auxiliary facts\<close>

lemma and_then_Inr: "and_then (w, Inr x) f = f x w"
  by (simp add: and_then_def)

lemma and_then_cases:
  assumes "and_then r f = (w', res)"
  obtains (fail) e where "r = (w', Inl e)" "res = Inl e"
        | (ok) w1 x where "r = (w1, Inr x)" "f x w1 = (w', res)"
  using assms by (auto simp: and_then_def split: prod.splits sum.splits)

lemma scn_tk: "u_tk scn_user = Some [(''atoken'', ''abc'')]"
  by (simp add: scn_user_def)

lemma scn_now: "now scn_clock = 1704927600000"
  by (simp add: scn_clock_def)

lemma scn_inTz:
  "inTz scn_clock (scn_mapper trig) scn_user 1704927600000 32400000 = 1704895200000"
  by (simp add: inTz_def scn_clock_def scn_mapper_def Mapper_new_def utz_def scn_user_def)

subsection \<open>The mappers\<close>

text \<open>
  \<open>Mapper.map\<close> answers its fourth argument whatever object it has built, and both
  subclasses call it with three arguments: they answer \<open>undefined\<close>, or throw.
\<close>

lemma Mapper_map_result:
  "Mapper_map m usr date pr c = (case u_tk usr of None \<Rightarrow> Inl TypeError | Some tk \<Rightarrow> Inr c)"
  by (cases "u_tk usr") (simp_all add: Mapper_map_def Let_def)

lemma PlainApiMapper_map_result:
  "PlainApiMapper_map m usr date c = (if u_tk usr = None then Inl TypeError else Inr JUndefined)"
  by (simp add: PlainApiMapper_map_def Mapper_map_result Let_def split: option.splits)

lemma CohortsEventsMapper_map_result:
  "CohortsEventsMapper_map clk m usr date c \<in> {Inr JNull, Inr JUndefined, Inl TypeError}"
  by (simp add: CohortsEventsMapper_map_def Mapper_map_result split: option.splits)

text \<open>
  C1. The claim is that the Immediate mapper always returns a delivery record of the
  persisted shape. The code does not: for a user holding a token, a nominal date and a
  content override, \<open>PlainApiMapper.map\<close> returns \<open>undefined\<close>, because
  \<open>Mapper.map\<close> returns its parameter \<open>c\<close> instead of the record \<open>ret\<close>.
\<close>

theorem PlainApiMapper_map_returns_undefined:
  "PlainApiMapper_map (scn_mapper scn_plain) scn_user 1704927600000
     (JArr [JObj [(''la'', JStr ''en'')]]) = Inr JUndefined"
  by (simp add: PlainApiMapper_map_result scn_user_def)

text \<open>
  C2. For an Anchored trigger with a time-of-day offset, when the candidate instant is
  earlier than the current time and rescheduling is disabled, \<open>map\<close> returns \<open>null\<close>.
\<close>

theorem CohortsEventsMapper_map_missed_window:
  assumes "t_time (m_trigger m) = Some time"
      and "inTz clk m usr date time < now clk"
      and "\<not> t_reschedule (m_trigger m)"
  shows "CohortsEventsMapper_map clk m usr date c = Inr JNull"
  using assms by (simp add: CohortsEventsMapper_map_def CohortsEventsMapper_date_def Let_def)

theorem CohortsEventsMapper_map_missed_window_witness:
  "t_time (m_trigger (scn_mapper (scn_cohort\<lparr>t_reschedule := False\<rparr>))) = Some 32400000
   \<and> inTz scn_clock (scn_mapper (scn_cohort\<lparr>t_reschedule := False\<rparr>)) scn_user 1704927600000 32400000
       < now scn_clock
   \<and> \<not> t_reschedule (m_trigger (scn_mapper (scn_cohort\<lparr>t_reschedule := False\<rparr>)))
   \<and> CohortsEventsMapper_map scn_clock (scn_mapper (scn_cohort\<lparr>t_reschedule := False\<rparr>))
        scn_user 1704927600000 (JArr []) = Inr JNull"
proof -
  let ?m = "scn_mapper (scn_cohort\<lparr>t_reschedule := False\<rparr>)"
  have h1: "t_time (m_trigger ?m) = Some 32400000"
    by (simp add: scn_mapper_def Mapper_new_def scn_cohort_def)
  have h2: "inTz scn_clock ?m scn_user 1704927600000 32400000 < now scn_clock"
    by (simp add: scn_inTz scn_now)
  have h3: "\<not> t_reschedule (m_trigger ?m)"
    by (simp add: scn_mapper_def Mapper_new_def)
  from CohortsEventsMapper_map_missed_window [OF h1 h2 h3] h1 h2 h3 show ?thesis by blast
qed

text \<open>
  The instant the Anchored mapper computes when the window is missed and rescheduling
  is enabled: the candidate plus one day, plus the spreading delay.
\<close>

lemma CohortsEventsMapper_date_reschedule:
  assumes "t_time (m_trigger m) = Some time"
      and "inTz clk m usr date time < now clk"
      and "t_reschedule (m_trigger m)"
  shows "CohortsEventsMapper_date clk m usr date =
           Some (inTz clk m usr date time + 86400000
                 + (case t_delay (m_trigger m) of None \<Rightarrow> 0 | Some delay \<Rightarrow> delay))"
  using assms by (simp add: CohortsEventsMapper_date_def Let_def split: option.splits)

text \<open>
  C3. The claim is that, with rescheduling enabled and the candidate in the past, the
  returned record carries the candidate plus one day. In the scenario of the
  specification (time of day 9:00, no delay, no expiry, app offset -300 minutes) the
  code computes that instant, and then returns \<open>undefined\<close>, not a record: the value
  is lost in \<open>Mapper.map\<close>.
\<close>

theorem CohortsEventsMapper_map_reschedule_returns_undefined:
  "CohortsEventsMapper_date scn_clock (scn_mapper scn_cohort) scn_user 1704927600000
     = Some (inTz scn_clock (scn_mapper scn_cohort) scn_user 1704927600000 32400000 + 86400000)
   \<and> CohortsEventsMapper_map scn_clock (scn_mapper scn_cohort) scn_user 1704927600000
        (JArr [JObj [(''la'', JStr ''en'')]]) = Inr JUndefined"
proof -
  let ?m = "scn_mapper scn_cohort"
  have h1: "t_time (m_trigger ?m) = Some 32400000"
    by (simp add: scn_mapper_def Mapper_new_def scn_cohort_def)
  have h2: "inTz scn_clock ?m scn_user 1704927600000 32400000 < now scn_clock"
    by (simp add: scn_inTz scn_now)
  have h3: "t_reschedule (m_trigger ?m)"
    by (simp add: scn_mapper_def Mapper_new_def scn_cohort_def)
  have h4: "t_delay (m_trigger ?m) = None" "t_end (m_trigger ?m) = None"
    by (simp_all add: scn_mapper_def Mapper_new_def scn_cohort_def)
  have d: "CohortsEventsMapper_date scn_clock ?m scn_user 1704927600000
             = Some (inTz scn_clock ?m scn_user 1704927600000 32400000 + 86400000)"
    using CohortsEventsMapper_date_reschedule [OF h1 h2 h3] h4 by simp
  have "CohortsEventsMapper_map scn_clock ?m scn_user 1704927600000
          (JArr [JObj [(''la'', JStr ''en'')]]) = Inr JUndefined"
    by (simp add: CohortsEventsMapper_map_def d h4 Mapper_map_result scn_tk)
  with d show ?thesis by simp
qed

text \<open>
  C4. For an Anchored trigger whose expiry date is strictly earlier than the final
  delivery instant (the reference date or the time-of-day candidate, moved by one day
  when it is in the past, plus the spreading delay), \<open>map\<close> returns \<open>null\<close>, whatever
  the reschedule flag.
\<close>

theorem CohortsEventsMapper_map_expired:
  assumes "t_end (m_trigger m) = Some e"
      and "e < (case t_time (m_trigger m) of
                  None \<Rightarrow> date
                | Some time \<Rightarrow>
                    if inTz clk m usr date time < now clk
                    then inTz clk m usr date time + 86400000
                    else inTz clk m usr date time)
               + (case t_delay (m_trigger m) of None \<Rightarrow> 0 | Some delay \<Rightarrow> delay)"
  shows "CohortsEventsMapper_map clk m usr date c = Inr JNull"
  using assms
  by (auto simp add: CohortsEventsMapper_map_def CohortsEventsMapper_date_def Let_def
           split: option.splits if_splits)

theorem CohortsEventsMapper_map_expired_witness:
  "t_end (m_trigger (scn_mapper (scn_cohort\<lparr>t_end := Some 1704981599999\<rparr>))) = Some 1704981599999
   \<and> CohortsEventsMapper_map scn_clock (scn_mapper (scn_cohort\<lparr>t_end := Some 1704981599999\<rparr>))
        scn_user 1704927600000 (JArr []) = Inr JNull"
proof -
  let ?m = "scn_mapper (scn_cohort\<lparr>t_end := Some 1704981599999\<rparr>)"
  have h1: "t_end (m_trigger ?m) = Some 1704981599999"
    by (simp add: scn_mapper_def Mapper_new_def)
  have t: "t_time (m_trigger ?m) = Some 32400000" "t_delay (m_trigger ?m) = None"
    by (simp_all add: scn_mapper_def Mapper_new_def scn_cohort_def)
  have h2: "1704981599999 < (case t_time (m_trigger ?m) of
                  None \<Rightarrow> 1704927600000
                | Some time \<Rightarrow>
                    if inTz scn_clock ?m scn_user 1704927600000 time < now scn_clock
                    then inTz scn_clock ?m scn_user 1704927600000 time + 86400000
                    else inTz scn_clock ?m scn_user 1704927600000 time)
               + (case t_delay (m_trigger ?m) of None \<Rightarrow> 0 | Some delay \<Rightarrow> delay)"
    by (simp add: t scn_inTz scn_now)
  from CohortsEventsMapper_map_expired [OF h1 h2] h1 show ?thesis by blast
qed

subsection \<open>The filter compiler\<close>

text \<open>
  C5. When every dimension of the filter is empty, the compiled steps are exactly two:
  the restriction that is an OR over the token fields of the targeted platforms, and
  the projection.
\<close>

theorem steps_empty_filter:
  assumes "f_geos (w_filter w) = []"
      and "f_cohorts (w_filter w) = []"
      and "f_user (w_filter w) = None"
      and "f_drill (w_filter w) = None"
  shows "steps en aud clk project w =
           (w, Inr [JObj [(''$match'', JObj [(''$or'',
                      JArr (map (\<lambda>f. JObj [(f, JBool True)])
                                (e_fields en (msg_platforms (a_message aud)) True)))])],
                    JObj [(''$project'', project_default project)]])"
  using assms
  by (simp add: steps_def steps_geos_def steps_cohorts_def steps_user_def steps_drill_def
                and_then_Inr token_step_def match_def js_or_def)

theorem steps_empty_filter_witness:
  "f_geos (w_filter scn_world) = [] \<and> f_cohorts (w_filter scn_world) = []
   \<and> f_user (w_filter scn_world) = None \<and> f_drill (w_filter scn_world) = None
   \<and> steps scn_env scn_audience scn_clock JUndefined scn_world =
       (scn_world,
        Inr [JObj [(''$match'', JObj [(''$or'',
                     JArr [JObj [(''tkatoken'', JBool True)], JObj [(''tkitoken'', JBool True)]])])],
             JObj [(''$project'', JObj [(''uid'', JNum 1)])]])"
proof -
  have h: "f_geos (w_filter scn_world) = []" "f_cohorts (w_filter scn_world) = []"
          "f_user (w_filter scn_world) = None" "f_drill (w_filter scn_world) = None"
    by (simp_all add: scn_world_def scn_filter_def)
  have "steps scn_env scn_audience scn_clock JUndefined scn_world =
       (scn_world,
        Inr [JObj [(''$match'', JObj [(''$or'',
                     JArr [JObj [(''tkatoken'', JBool True)], JObj [(''tkitoken'', JBool True)]])])],
             JObj [(''$project'', JObj [(''uid'', JNum 1)])]])"
    using steps_empty_filter [OF h, of scn_env scn_audience scn_clock JUndefined]
    by (simp add: scn_env_def scn_audience_def Audience_new_def scn_message_def project_default_def)
  with h show ?thesis by blast
qed

text \<open>
  The blocks of \<open>steps\<close> before the drill query keep the drill query of the filter
  and do not call \<open>fetchUsers\<close>.
\<close>

lemma steps_geos_keeps: "steps_geos en ss w = (w', r) \<Longrightarrow> keeps w w'"
  by (auto simp: steps_geos_def log_call_def split: if_splits option.splits sum.splits)

lemma steps_cohorts_keeps: "steps_cohorts ss w = (w', r) \<Longrightarrow> keeps w w'"
  by (auto simp: steps_cohorts_def split: if_splits)

lemma filterMessage_keeps: "filterMessage en aud mn w = (w', r) \<Longrightarrow> keeps w w'"
  by (auto simp: filterMessage_def log_call_def Let_def split: if_splits option.splits sum.splits)

lemma steps_user_message_keeps: "steps_user_message en aud sq w = (w', r) \<Longrightarrow> keeps w w'"
  unfolding steps_user_message_def
  by (auto simp: Let_def set_user_def split: prod.splits if_splits
           elim!: and_then_cases dest!: filterMessage_keeps)

lemma steps_user_geo_keeps: "steps_user_geo en aud sq w = (w', r) \<Longrightarrow> keeps w w'"
  unfolding steps_user_geo_def
  by (auto simp: Let_def set_user_def log_call_def
           split: prod.splits if_splits option.splits sum.splits
           elim!: and_then_cases)

lemma steps_user_keeps: "steps_user en aud ss w = (w', r) \<Longrightarrow> keeps w w'"
  unfolding steps_user_def
  by (auto split: option.splits prod.splits if_splits
           elim!: and_then_cases
           dest!: steps_user_message_keeps steps_user_geo_keeps)

text \<open>The markers an object holds after the loop over the cohort ids.\<close>

lemma set_markers_snoc:
  "set_markers v (ids @ [cid]) chr = AList.update (chr_key cid) v (set_markers v ids chr)"
  by (simp add: set_markers_def)

lemma map_of_set_markers:
  "map_of (set_markers v ids chr) k =
     (if k \<in> chr_key ` set ids then Some v else map_of chr k)"
proof (induction ids rule: rev_induct)
  case Nil
  then show ?case by (simp add: set_markers_def)
next
  case (snoc cid ids)
  then show ?case by (auto simp: set_markers_snoc update_conv')
qed

lemma keys_set_markers:
  "fst ` set (set_markers v ids chr) = fst ` set chr \<union> chr_key ` set ids"
proof (induction ids rule: rev_induct)
  case Nil
  then show ?case by (simp add: set_markers_def)
next
  case (snoc cid ids)
  then show ?case by (simp add: set_markers_snoc dom_update Un_commute Un_left_commute insert_commute)
qed

text \<open>
  The drill block on a query that is exactly a cohort inclusion: it fails on no input
  and calls nothing.
\<close>

lemma steps_drill_chr_in:
  assumes "f_drill (w_filter w) = Some dq"
      and "dq_queryObject dq = Some qo"
      and "qo_rest qo = []" and "qo_chr qo = Some chr"
      and "c_in chr = Some ids" and "c_nin chr = None"
      and "e_drill en = Some d"
  shows "steps_drill en aud clk ss w =
           (w, Inr (ss @ [JObj [(''$match'', JObj (set_markers (JStr ''true'') ids []))]]))"
  using assms by (simp add: steps_drill_def match_def)

text \<open>
  C6. When the drill filter is exactly a cohort expression \<open>{queryObject: {chr: {$in:
  ids}}}\<close> and the behavioural provider is available, \<open>steps\<close> never calls
  \<open>fetchUsers\<close>, and the steps it compiles end with one restriction whose keys are
  exactly the markers \<open>'chr.' + id + '.in'\<close> of the listed ids, each required to equal
  \<open>'true'\<close>, followed by the projection.
\<close>

theorem steps_drill_cohort_expression:
  assumes "f_drill (w_filter w) = Some dq"
      and "dq_queryObject dq = Some qo"
      and "qo_rest qo = []" and "qo_chr qo = Some chr"
      and "c_in chr = Some ids" and "c_nin chr = None"
      and "e_drill en = Some d"
      and "steps en aud clk project w = (w', r)"
  shows "(\<exists>cs. w_calls w' = w_calls w @ cs \<and> DrillFetchUsers \<notin> set cs)
       \<and> (\<forall>ss. r = Inr ss \<longrightarrow>
            (\<exists>pre m. ss = pre @ [JObj [(''$match'', JObj m)],
                                 JObj [(''$project'', project_default project)]]
                \<and> (\<forall>cid \<in> set ids. map_of m (''chr.'' @ cid @ ''.in'') = Some (JStr ''true''))
                \<and> fst ` set m = (\<lambda>cid. ''chr.'' @ cid @ ''.in'') ` set ids))"
proof -
  let ?m = "set_markers (JStr ''true'') ids []"
  have key: "chr_key = (\<lambda>cid. ''chr.'' @ cid @ ''.in'')"
    by (simp add: fun_eq_iff chr_key_def)
  have "(\<forall>cid \<in> set ids. map_of ?m (chr_key cid) = Some (JStr ''true''))
           \<and> fst ` set ?m = chr_key ` set ids"
    by (simp add: map_of_set_markers keys_set_markers)
  then have m: "(\<forall>cid \<in> set ids. map_of ?m (''chr.'' @ cid @ ''.in'') = Some (JStr ''true''))
           \<and> fst ` set ?m = (\<lambda>cid. ''chr.'' @ cid @ ''.in'') ` set ids"
    unfolding key .
  from assms(8) show ?thesis
    unfolding steps_def
  proof (cases rule: and_then_cases)
    case (fail e)
    from steps_geos_keeps [OF fail(1)] fail(2) show ?thesis by simp
  next
    case (ok w1 ss1)
    from steps_geos_keeps [OF ok(1)] have k1: "keeps w w1" .
    from ok(2) show ?thesis
    proof (cases rule: and_then_cases)
      case (fail e)
      from steps_cohorts_keeps [OF fail(1)] k1 fail(2) show ?thesis by auto
    next
      case (ok w2 ss2)
      from steps_cohorts_keeps [OF ok(1)] k1 have k2: "keeps w w2" by auto
      from ok(2) show ?thesis
      proof (cases rule: and_then_cases)
        case (fail e)
        from steps_user_keeps [OF fail(1)] k2 fail(2) show ?thesis by auto
      next
        case (ok w3 ss3)
        from steps_user_keeps [OF ok(1)] k2 have k3: "keeps w w3" by auto
        then have "f_drill (w_filter w3) = Some dq" using assms(1) by simp
        from steps_drill_chr_in [OF this assms(2-7)]
        have dr: "steps_drill en aud clk ss3 w3 =
                    (w3, Inr (ss3 @ [JObj [(''$match'', JObj ?m)]]))" .
        from ok(2) have "w' = w3"
          and "r = Inr ((ss3 @ [JObj [(''$match'', JObj ?m)]])
                        @ [JObj [(''$project'', project_default project)]])"
          by (simp_all add: dr and_then_def)
        with k3 m show ?thesis by auto
      qed
    qed
  qed
qed

lemma scn_steps_drill:
  "steps scn_env scn_audience scn_clock JUndefined scn_world_drill =
     (scn_world_drill,
      Inr [JObj [(''$match'', JObj [(''$or'',
                   JArr [JObj [(''tkatoken'', JBool True)], JObj [(''tkitoken'', JBool True)]])])],
           JObj [(''$match'', JObj [(''chr.c1.in'', JStr ''true''), (''chr.c2.in'', JStr ''true'')])],
           JObj [(''$project'', JObj [(''uid'', JNum 1)])]])"
  by (simp add: steps_def steps_geos_def steps_cohorts_def steps_user_def steps_drill_def
                and_then_def token_step_def match_def js_or_def project_default_def
                scn_world_drill_def scn_world_def scn_filter_def scn_drill_query_def
                scn_env_def scn_audience_def Audience_new_def scn_message_def
                set_markers_def chr_key_def)

theorem steps_drill_cohort_expression_witness:
  "f_drill (w_filter scn_world_drill) = Some scn_drill_query
   \<and> e_drill scn_env = Some scn_drill
   \<and> steps scn_env scn_audience scn_clock JUndefined scn_world_drill =
       (scn_world_drill,
        Inr [JObj [(''$match'', JObj [(''$or'',
                     JArr [JObj [(''tkatoken'', JBool True)], JObj [(''tkitoken'', JBool True)]])])],
             JObj [(''$match'', JObj [(''chr.c1.in'', JStr ''true''), (''chr.c2.in'', JStr ''true'')])],
             JObj [(''$project'', JObj [(''uid'', JNum 1)])]])
   \<and> (\<exists>pre m. [JObj [(''$match'', JObj [(''$or'',
                     JArr [JObj [(''tkatoken'', JBool True)], JObj [(''tkitoken'', JBool True)]])])],
                JObj [(''$match'', JObj [(''chr.c1.in'', JStr ''true''), (''chr.c2.in'', JStr ''true'')])],
                JObj [(''$project'', JObj [(''uid'', JNum 1)])]]
               = pre @ [JObj [(''$match'', JObj m)], JObj [(''$project'', project_default JUndefined)]]
          \<and> map_of m ''chr.c1.in'' = Some (JStr ''true'')
          \<and> map_of m ''chr.c2.in'' = Some (JStr ''true'')
          \<and> fst ` set m = {''chr.c1.in'', ''chr.c2.in''})
   \<and> (\<exists>cs. w_calls scn_world_drill = w_calls scn_world_drill @ cs \<and> DrillFetchUsers \<notin> set cs)"
proof -
  have h1: "f_drill (w_filter scn_world_drill) = Some scn_drill_query"
    by (simp add: scn_world_drill_def)
  have h2: "dq_queryObject scn_drill_query =
              Some \<lparr> qo_chr = Some \<lparr> c_in = Some [''c1'', ''c2''], c_nin = None \<rparr>, qo_rest = [] \<rparr>"
    by (simp add: scn_drill_query_def)
  have h7: "e_drill scn_env = Some scn_drill"
    by (simp add: scn_env_def)
  from steps_drill_cohort_expression [OF h1 h2 _ _ _ _ h7 scn_steps_drill,
         of "\<lparr> c_in = Some [''c1'', ''c2''], c_nin = None \<rparr>" "[''c1'', ''c2'']"]
  have "(\<exists>cs. w_calls scn_world_drill = w_calls scn_world_drill @ cs \<and> DrillFetchUsers \<notin> set cs)
       \<and> (\<exists>pre m. [JObj [(''$match'', JObj [(''$or'',
                     JArr [JObj [(''tkatoken'', JBool True)], JObj [(''tkitoken'', JBool True)]])])],
                JObj [(''$match'', JObj [(''chr.c1.in'', JStr ''true''), (''chr.c2.in'', JStr ''true'')])],
                JObj [(''$project'', JObj [(''uid'', JNum 1)])]]
               = pre @ [JObj [(''$match'', JObj m)], JObj [(''$project'', project_default JUndefined)]]
          \<and> map_of m ''chr.c1.in'' = Some (JStr ''true'')
          \<and> map_of m ''chr.c2.in'' = Some (JStr ''true'')
          \<and> fst ` set m = {''chr.c1.in'', ''chr.c2.in''})"
    by simp
  with h1 h7 scn_steps_drill show ?thesis by blast
qed















text \<open>
  C10. \<open>aggregate\<close> always raises an error and leaves the state as it is: no call of
  a store or provider is made, because \<open>this.query\<close> is not defined.
\<close>

theorem aggregate_raises:
  "aggregate en aud clk project w = (w, Inl TypeError)"
  by (simp add: aggregate_def Audience_query_def)

subsection \<open>The queue writer\<close>

lemma flush_ok:
  assumes "e_insertMany_error en (b_buffer b) = None"
  shows "flush en b w =
           (w\<lparr>w_push := w_push w @ b_buffer b,
              w_calls := w_calls w @ [PushInsertMany (length (b_buffer b))]\<rparr>,
            Inr (b\<lparr>b_buffer := []\<rparr>))"
  using assms by (simp add: flush_def log_call_def)

lemma div_mod_step:
  fixes B :: nat
  assumes "0 < B" "Suc k = B"
  shows "(Suc (k + n)) div B = Suc (n div B)" "(Suc (k + n)) mod B = n mod B"
proof -
  have e: "Suc (k + n) = n + B" using assms by simp
  show "(Suc (k + n)) div B = Suc (n div B)"
    unfolding e using assms(1) by (simp add: div_add_self2)
  show "(Suc (k + n)) mod B = n mod B"
    unfolding e by simp
qed

lemma feed_invariant:
  assumes "0 < B" and "\<forall>xs. e_insertMany_error en xs = None"
  shows "b_size b = B \<Longrightarrow> length (b_buffer b) < B \<Longrightarrow>
         \<exists>w' b'. feed en (map Inr rs) b w = (w', Inr b')
           \<and> w_push w' @ b_buffer b' = w_push w @ b_buffer b @ filter truthy rs
           \<and> length (b_buffer b') = (length (b_buffer b) + length (filter truthy rs)) mod B
           \<and> w_calls w' = w_calls w
                 @ replicate ((length (b_buffer b) + length (filter truthy rs)) div B) (PushInsertMany B)
           \<and> b_total b' = b_total b + length (filter truthy rs)
           \<and> b_size b' = B
           \<and> w_filter w' = w_filter w \<and> w_counters w' = w_counters w"
proof (induction rs arbitrary: b w)
  case Nil
  then show ?case by simp
next
  case (Cons r rs)
  show ?case
  proof (cases "truthy r")
    case False
    with Cons.IH [OF Cons.prems] show ?thesis by simp
  next
    case True
    let ?b1 = "b\<lparr>b_buffer := b_buffer b @ [r], b_total := Suc (b_total b)\<rparr>"
    show ?thesis
    proof (cases "B \<le> Suc (length (b_buffer b))")
      case full: True
      with Cons.prems have k: "Suc (length (b_buffer b)) = B" by simp
      let ?w1 = "w\<lparr>w_push := w_push w @ b_buffer ?b1,
                    w_calls := w_calls w @ [PushInsertMany (length (b_buffer ?b1))]\<rparr>"
      let ?b2 = "?b1\<lparr>b_buffer := []\<rparr>"
      have fl: "flush en ?b1 w = (?w1, Inr ?b2)"
        using assms(2) by (intro flush_ok) simp
      have step: "feed en (map Inr (r # rs)) b w = feed en (map Inr rs) ?b2 ?w1"
        using True full Cons.prems(1) fl by (simp add: pushSync_def)
      have "b_size ?b2 = B" "length (b_buffer ?b2) < B"
        using Cons.prems(1) assms(1) by simp_all
      from Cons.IH [OF this, of ?w1] obtain w' b' where
        r: "feed en (map Inr rs) ?b2 ?w1 = (w', Inr b')"
           "w_push w' @ b_buffer b' = w_push ?w1 @ b_buffer ?b2 @ filter truthy rs"
           "length (b_buffer b') = (length (b_buffer ?b2) + length (filter truthy rs)) mod B"
           "w_calls w' = w_calls ?w1
                 @ replicate ((length (b_buffer ?b2) + length (filter truthy rs)) div B) (PushInsertMany B)"
           "b_total b' = b_total ?b2 + length (filter truthy rs)"
           "b_size b' = B" "w_filter w' = w_filter ?w1" "w_counters w' = w_counters ?w1"
        by blast
      have dm: "(length (b_buffer b) + length (filter truthy (r # rs))) div B
                  = Suc (length (filter truthy rs) div B)"
               "(length (b_buffer b) + length (filter truthy (r # rs))) mod B
                  = length (filter truthy rs) mod B"
        using div_mod_step [OF assms(1) k, of "length (filter truthy rs)"] True by simp_all
      show ?thesis
        unfolding step dm using r True k
        by (simp add: replicate_app_Cons_same)
    next
      case notfull: False
      have step: "feed en (map Inr (r # rs)) b w = feed en (map Inr rs) ?b1 w"
        using True notfull Cons.prems(1) by (simp add: pushSync_def)
      have "b_size ?b1 = B" "length (b_buffer ?b1) < B"
        using Cons.prems(1) notfull by simp_all
      from Cons.IH [OF this, of w] show ?thesis
        unfolding step using True by simp
    qed
  qed
qed

text \<open>
  C9. With a batch size \<open>B > 0\<close> and a store that accepts the writes, feeding the
  results of \<open>map\<close> of which \<open>N\<close> are accepted makes \<open>N div B\<close> full-batch
  flushes in the loop and one final flush of the \<open>N mod B\<close> remaining records; all
  accepted records are persisted in order, and the running total is \<open>N\<close>.
\<close>

theorem run_batches_counts:
  assumes "0 < B" and "\<forall>xs. e_insertMany_error en xs = None"
  shows "\<exists>w' b'. run_batches en (map Inr rs) (batchInsert B) w = (w', Inr b')
           \<and> w_push w' = w_push w @ filter truthy rs
           \<and> w_calls w' = w_calls w
                @ replicate (length (filter truthy rs) div B) (PushInsertMany B)
                @ [PushInsertMany (length (filter truthy rs) mod B)]
           \<and> b_total b' = length (filter truthy rs)
           \<and> b_buffer b' = []"
proof -
  have "b_size (batchInsert B) = B" "length (b_buffer (batchInsert B)) < B"
    using assms(1) by (simp_all add: batchInsert_def)
  from feed_invariant [OF assms this, of rs w] obtain w1 b1 where
    r: "feed en (map Inr rs) (batchInsert B) w = (w1, Inr b1)"
       "w_push w1 @ b_buffer b1 = w_push w @ b_buffer (batchInsert B) @ filter truthy rs"
       "length (b_buffer b1) = (length (b_buffer (batchInsert B)) + length (filter truthy rs)) mod B"
       "w_calls w1 = w_calls w
           @ replicate ((length (b_buffer (batchInsert B)) + length (filter truthy rs)) div B) (PushInsertMany B)"
       "b_total b1 = b_total (batchInsert B) + length (filter truthy rs)"
    by blast
  have fl: "flush en b1 w1 =
           (w1\<lparr>w_push := w_push w1 @ b_buffer b1,
              w_calls := w_calls w1 @ [PushInsertMany (length (b_buffer b1))]\<rparr>,
            Inr (b1\<lparr>b_buffer := []\<rparr>))"
    using assms(2) by (intro flush_ok) simp
  show ?thesis
    using r by (simp add: run_batches_def and_then_def fl batchInsert_def)
qed

theorem run_batches_counts_witness:
  "(0::nat) < 2 \<and> (\<forall>xs. e_insertMany_error scn_env xs = None)
   \<and> (\<exists>w' b'. run_batches scn_env
                  (map Inr [JNum 1, JNum 2, JNum 0, JNum 3, JNum 4, JNum 5]) (batchInsert 2) scn_world
                  = (w', Inr b')
         \<and> w_push w' = w_push scn_world @ [JNum 1, JNum 2, JNum 3, JNum 4, JNum 5]
         \<and> w_calls w' = w_calls scn_world @ [PushInsertMany 2, PushInsertMany 2, PushInsertMany 1]
         \<and> b_total b' = 5 \<and> b_buffer b' = [])"
proof -
  have h1: "(0::nat) < 2" by simp
  have h2: "\<forall>xs. e_insertMany_error scn_env xs = None" by (simp add: scn_env_def)
  have n: "filter truthy [JNum 1, JNum 2, JNum 0, JNum 3, JNum 4, JNum 5]
             = [JNum 1, JNum 2, JNum 3, JNum 4, JNum 5]"
    by simp
  have len: "length [JNum 1, JNum 2, JNum 3, JNum 4, JNum 5] = 5"
    by simp
  have r: "replicate (5 div 2) (PushInsertMany 2) @ [PushInsertMany (5 mod 2)]
             = [PushInsertMany 2, PushInsertMany 2, PushInsertMany 1]"
  proof -
    have e: "(5::nat) div 2 = 2" "(5::nat) mod 2 = 1" by simp_all
    have t: "replicate 2 x = [x, x]" for x :: call by (simp add: numeral_2_eq_2)
    show ?thesis unfolding e t by simp
  qed
  from run_batches_counts [OF h1 h2, of "[JNum 1, JNum 2, JNum 0, JNum 3, JNum 4, JNum 5]" scn_world]
  have "\<exists>w' b'. run_batches scn_env
                  (map Inr [JNum 1, JNum 2, JNum 0, JNum 3, JNum 4, JNum 5]) (batchInsert 2) scn_world
                  = (w', Inr b')
         \<and> w_push w' = w_push scn_world @ [JNum 1, JNum 2, JNum 3, JNum 4, JNum 5]
         \<and> w_calls w' = w_calls scn_world @ [PushInsertMany 2, PushInsertMany 2, PushInsertMany 1]
         \<and> b_total b' = 5 \<and> b_buffer b' = []"
    unfolding n len r .
  with h1 h2 show ?thesis by blast
qed

subsection \<open>Scheduling\<close>

text \<open>
  \<open>SchedulePusher.run\<close> on the concrete message: the store streams one user, both
  mappers answer \<open>undefined\<close>, the loop skips them, and the final flush writes an
  empty batch. Nothing is queued.
\<close>

lemma scn_schedule:
  "Audience_schedule scn_env scn_audience scn_plain None =
     Inr \<lparr> pp_audience = scn_audience, pp_trigger = scn_plain,
           pp_mappers = [PlainApiMapper (Mapper_new (- 300) scn_message scn_plain ''a'' ''token''),
                         PlainApiMapper (Mapper_new (- 300) scn_message scn_plain ''i'' ''token'')],
           pp_contents = JUndefined, pp_start = None, pp_message = None \<rparr>"
  by (simp add: Audience_schedule_def PusherPopper_new_def Let_def setStart_def
                scn_env_def scn_audience_def Audience_new_def scn_message_def scn_app_def
                scn_plain_def)

lemma scn_steps_empty:
  "steps scn_env scn_audience scn_clock JUndefined scn_world =
     (scn_world,
      Inr [JObj [(''$match'', JObj [(''$or'',
                   JArr [JObj [(''tkatoken'', JBool True)], JObj [(''tkitoken'', JBool True)]])])],
           JObj [(''$project'', JObj [(''uid'', JNum 1)])]])"
  by (simp add: steps_def steps_geos_def steps_cohorts_def steps_user_def steps_drill_def
                and_then_def token_step_def match_def js_or_def project_default_def
                scn_world_def scn_filter_def scn_env_def scn_audience_def Audience_new_def
                scn_message_def)

lemma SchedulePusher_run_queues_nothing:
  "\<exists>sp. Audience_schedule scn_env scn_audience scn_plain None = Inr sp
        \<and> SchedulePusher_run scn_env scn_clock sp scn_world =
            (scn_world\<lparr>w_calls := [DbUsersAggregate, PushInsertMany 0]\<rparr>, Inr ())"
proof -
  have uf: "msg_userFields (a_message scn_audience) = JUndefined"
    by (simp add: scn_audience_def Audience_new_def scn_message_def)
  have ap: "a_app scn_audience = Some scn_app"
    by (simp add: scn_audience_def Audience_new_def)
  have tp: "msg_triggerPlain (a_message scn_audience) = Some scn_plain"
    by (simp add: scn_audience_def Audience_new_def scn_message_def)
  have ag: "e_users_aggregate scn_env a ss = ([scn_user], None)" for a ss
    by (simp add: scn_env_def)
  have bs: "e_queue_insert_batch scn_env = 2" "e_insertMany_error scn_env [] = None"
    by (simp_all add: scn_env_def)
  have wc: "w_calls scn_world = []" by (simp add: scn_world_def)
  have "SchedulePusher_run scn_env scn_clock
          \<lparr> pp_audience = scn_audience, pp_trigger = scn_plain,
            pp_mappers = [PlainApiMapper (Mapper_new (- 300) scn_message scn_plain ''a'' ''token''),
                          PlainApiMapper (Mapper_new (- 300) scn_message scn_plain ''i'' ''token'')],
            pp_contents = JUndefined, pp_start = None, pp_message = None \<rparr> scn_world =
            (scn_world\<lparr>w_calls := [DbUsersAggregate, PushInsertMany 0]\<rparr>, Inr ())"
    by (simp add: SchedulePusher_run_def Let_def uf scn_steps_empty and_then_def ap tp ag bs wc
                  run_batches_def PlainApiMapper_map_result scn_tk batchInsert_def flush_def
                  log_call_def)
  with scn_schedule show ?thesis by blast
qed

text \<open>
  Without a start date and without a plain trigger, \<open>run\<close> throws only after the
  cursor on the users has been opened.
\<close>

lemma SchedulePusher_run_no_start:
  "\<exists>sp. Audience_schedule scn_env (Audience_new (scn_message\<lparr>msg_triggerPlain := None\<rparr>) (Some scn_app))
            scn_plain None = Inr sp
        \<and> SchedulePusher_run scn_env scn_clock sp scn_world =
            (scn_world\<lparr>w_calls := [DbUsersAggregate]\<rparr>, Inl TypeError)"
  by (simp add: Audience_schedule_def PusherPopper_new_def Let_def setStart_def
                SchedulePusher_run_def steps_def steps_geos_def steps_cohorts_def steps_user_def
                steps_drill_def and_then_def log_call_def
                scn_env_def Audience_new_def scn_message_def scn_app_def scn_plain_def
                scn_world_def scn_filter_def)

subsection \<open>Cancellation\<close>

text \<open>A popper made by \<open>Audience.pop\<close> has no \<open>message\<close>: \<open>clear\<close> throws.\<close>

lemma PusherPopper_new_message:
  "PusherPopper_new en aud trig = Inr pp \<Longrightarrow> pp_message pp = None"
  by (auto simp: PusherPopper_new_def Let_def split: if_splits option.splits)

lemma Popper_clear_new:
  "Audience_pop en aud trig = Inr pp \<Longrightarrow> Popper_clear en pp w = (w, Inl TypeError)"
  by (simp add: Audience_pop_def Popper_clear_def PusherPopper_new_message)

lemma scn_pop: "\<exists>pp. Audience_pop scn_env scn_audience scn_cohort = Inr pp"
  by (simp add: Audience_pop_def PusherPopper_new_def Let_def scn_env_def scn_audience_def
                Audience_new_def scn_message_def)

text \<open>
  C8. The claim is that \<open>clear\<close> deletes the queued records of the message, updates
  the counters and returns the number deleted. The code does not: on the popper that
  \<open>Audience.pop\<close> makes for a message with three queued records, \<open>clear\<close> throws a
  TypeError at \<open>this.message.platforms\<close> and leaves the queue and the counters as
  they are.
\<close>

theorem Popper_clear_raises:
  "\<exists>pp. Audience_pop scn_env scn_audience scn_cohort = Inr pp
        \<and> Popper_clear scn_env pp scn_world = (scn_world, Inl TypeError)"
  using scn_pop Popper_clear_new by blast

text \<open>
  Were \<open>this.message\<close> the message of the audience, \<open>clear\<close> would delete the
  three records and return 3, and would count the cancelled records under the array
  indices \<open>0\<close> and \<open>1\<close>, not under the platform keys \<open>a\<close> and \<open>i\<close>.
\<close>

lemma string_of_nat_0: "string_of_nat 0 = ''0''"
  by simp
lemma string_of_nat_1: "string_of_nat (Suc 0) = ''1''"
  by simp

lemma clear_update_2:
  "clear_update [a, b] =
     Some [(''result.processed'', a + b), (''result.errors.0.cancelled'', a),
           (''result.errors.1.cancelled'', b)]"
  by (simp add: clear_update_def upt_rec inc_get_def Let_def del: string_of_nat.simps add: string_of_nat_0 string_of_nat_1)

lemma Popper_clear_with_message:
  "\<exists>pp. Audience_pop scn_env scn_audience scn_cohort = Inr pp
     \<and> Popper_clear scn_env (pp\<lparr>pp_message := Some scn_message\<rparr>) scn_world =
         (scn_world\<lparr>w_push := [],
            w_calls := [PushDeleteMany ''m1'' ''a'', PushDeleteMany ''m1'' ''i'',
                        MessageUpdate [(''result.processed'', 3),
                                       (''result.errors.0.cancelled'', 2),
                                       (''result.errors.1.cancelled'', 1)]],
            w_counters := [(''result.processed'', 3), (''result.errors.0.cancelled'', 2),
                           (''result.errors.1.cancelled'', 1)]\<rparr>,
          Inr 3)"
proof -
  have d: "delete_all scn_env (msg_id scn_message) (msg_platforms scn_message) scn_world =
             (scn_world\<lparr>w_push := [],
                w_calls := [PushDeleteMany ''m1'' ''a'', PushDeleteMany ''m1'' ''i'']\<rparr>, Inr [2, 1])"
    by (simp add: scn_message_def deleteMany_def scn_env_def scn_world_def log_call_def
                  push_matches_def scn_push_def)
  have u: "e_update_error scn_env x = None" for x
    by (simp add: scn_env_def)
  have c: "Popper_clear scn_env (pp\<lparr>pp_message := Some scn_message\<rparr>) scn_world =
         (scn_world\<lparr>w_push := [],
            w_calls := [PushDeleteMany ''m1'' ''a'', PushDeleteMany ''m1'' ''i'',
                        MessageUpdate [(''result.processed'', 3),
                                       (''result.errors.0.cancelled'', 2),
                                       (''result.errors.1.cancelled'', 1)]],
            w_counters := [(''result.processed'', 3), (''result.errors.0.cancelled'', 2),
                           (''result.errors.1.cancelled'', 1)]\<rparr>,
          Inr 3)" for pp
  proof -
    have wc: "w_counters scn_world = []"
      by (simp add: scn_world_def)
    show ?thesis
      by (simp add: Popper_clear_def d and_then_def clear_update_2 message_update_def u
                    log_call_def inc_get_def wc)
  qed
  with scn_pop show ?thesis by blast
qed

end
